theory Spec2Isabelle
  imports Complex_Main
begin

section \<open>Python values\<close>

text \<open>
  The report is built from the rows that the spreadsheet client returns: a list of
  dictionaries from column name to cell value. A cell is a string, or a number when the
  client could read the cell as one. A dictionary keeps the order of its keys, so a row is
  an association list (with distinct keys, as a dictionary has).

  A Python \<open>float\<close> is an IEEE double: a finite value (kept as the rational it denotes),
  the negative zero, an infinity, or not-a-number. \<open>Finite 0\<close> is the positive zero.
  Strings are byte strings; text is taken to be ASCII (a byte above 127 is an ordinary
  character that is neither a digit, a letter nor white space).
\<close>

datatype pyfloat = Finite rat | NegZero | PosInf | NegInf | NaN

datatype cell = CStr string | CInt int | CFloat pyfloat

type_synonym row = "(string \<times> cell) list"

datatype exn = ValueError | OverflowError | External string

text \<open>\<open>row.get(key, default)\<close>, \<open>row.keys()\<close> and \<open>row.values()\<close>.\<close>

definition dict_get :: "row \<Rightarrow> string \<Rightarrow> cell \<Rightarrow> cell" where
  "dict_get row k d = (case map_of row k of None \<Rightarrow> d | Some v \<Rightarrow> v)"

definition dict_keys :: "row \<Rightarrow> string list" where
  "dict_keys row = map fst row"

definition dict_values :: "row \<Rightarrow> cell list" where
  "dict_values row = map snd row"

section \<open>Characters and decimal digits\<close>

definition is_digit :: "char \<Rightarrow> bool" where
  "is_digit c = (48 \<le> (of_char c :: nat) \<and> (of_char c :: nat) \<le> 57)"

definition digit_val :: "char \<Rightarrow> int" where
  "digit_val c = int (of_char c) - 48"

definition digit_char :: "nat \<Rightarrow> char" where
  "digit_char d = ''0123456789'' ! (d mod 10)"

text \<open>The white space that \<open>int\<close> and \<open>float\<close> strip from both ends of a string.\<close>

definition is_space :: "char \<Rightarrow> bool" where
  "is_space c =
     (let n = (of_char c :: nat) in (9 \<le> n \<and> n \<le> 13) \<or> (28 \<le> n \<and> n \<le> 32))"

definition strip :: "string \<Rightarrow> string" where
  "strip s = rev (dropWhile is_space (rev (dropWhile is_space s)))"

definition lower_char :: "char \<Rightarrow> char" where
  "lower_char c =
     (case map_of (zip ''ABCDEFGHIJKLMNOPQRSTUVWXYZ'' ''abcdefghijklmnopqrstuvwxyz'') c of
        None \<Rightarrow> c
      | Some l \<Rightarrow> l)"

definition lower :: "string \<Rightarrow> string" where
  "lower s = map lower_char s"

function digits_of :: "int \<Rightarrow> string" where
  "digits_of n =
     (if n < 10 then [digit_char (nat n)]
      else digits_of (n div 10) @ [digit_char (nat (n mod 10))])"
  by pat_completeness auto
termination
  by (relation "measure nat") auto

declare digits_of.simps [simp del]

text \<open>\<open>str(n)\<close> of an \<open>int\<close>.\<close>

definition int_str :: "int \<Rightarrow> string" where
  "int_str n = (if n < 0 then CHR ''-'' # digits_of (- n) else digits_of n)"

section \<open>Floating point\<close>

function bit_length :: "int \<Rightarrow> int" where
  "bit_length n = (if n \<le> 0 then 0 else 1 + bit_length (n div 2))"
  by pat_completeness auto
termination
  by (relation "measure nat") auto

declare bit_length.simps [simp del]

definition pow2 :: "int \<Rightarrow> rat" where
  "pow2 k = (if 0 \<le> k then 2 ^ nat k else 1 / 2 ^ nat (- k))"

definition pow10 :: "int \<Rightarrow> rat" where
  "pow10 k = (if 0 \<le> k then 10 ^ nat k else 1 / 10 ^ nat (- k))"

text \<open>For \<open>a > 0\<close>, the exponent \<open>e\<close> with \<open>2^e \<le> a < 2^(e+1)\<close>.\<close>

definition floor_log2 :: "rat \<Rightarrow> int" where
  "floor_log2 a =
     (let (p, q) = quotient_of a;
          d = bit_length p - bit_length q
      in if pow2 d \<le> a then d else d - 1)"

definition round_half_even :: "rat \<Rightarrow> int" where
  "round_half_even x =
     (let f = \<lfloor>x\<rfloor>; d = x - of_int f
      in if d < 1 / 2 then f
         else if 1 / 2 < d then f + 1
         else if even f then f else f + 1)"

text \<open>
  Rounding a rational to the nearest double, ties to even: 53 bits of precision, the
  least exponent \<open>-1074\<close>, overflow to an infinity from \<open>2^1024 - 2^970\<close> on.
\<close>

definition round_to_double :: "rat \<Rightarrow> pyfloat" where
  "round_to_double q =
     (if q = 0 then Finite 0
      else
        let a = \<bar>q\<bar>;
            k = max (floor_log2 a - 52) (- 1074);
            m = round_half_even (a / pow2 k);
            r = of_int m * pow2 k
        in if pow2 1024 \<le> r then (if 0 < q then PosInf else NegInf)
           else if m = 0 then (if 0 < q then Finite 0 else NegZero)
           else Finite (if 0 < q then r else - r))"

text \<open>Addition of two doubles.\<close>

fun fadd :: "pyfloat \<Rightarrow> pyfloat \<Rightarrow> pyfloat" where
  "fadd NaN _ = NaN"
| "fadd _ NaN = NaN"
| "fadd PosInf NegInf = NaN"
| "fadd NegInf PosInf = NaN"
| "fadd PosInf _ = PosInf"
| "fadd _ PosInf = PosInf"
| "fadd NegInf _ = NegInf"
| "fadd _ NegInf = NegInf"
| "fadd NegZero y = y"
| "fadd x NegZero = x"
| "fadd (Finite a) (Finite b) = round_to_double (a + b)"

subsection \<open>\<open>repr\<close> of a float\<close>

text \<open>
  \<open>str(x)\<close> of a float is the shortest decimal string that reads back as \<open>x\<close> (the
  one nearest to \<open>x\<close> among the shortest), in exponent notation when the decimal point
  would lie more than 16 places right or 4 or more places left of the first digit.
\<close>

definition floor_log10 :: "rat \<Rightarrow> int" where
  "floor_log10 a =
     (if 1 \<le> a then int (length (digits_of \<lfloor>a\<rfloor>)) - 1
      else case find (\<lambda>k. 1 \<le> a * 10 ^ k) [1..<400] of
             Some k \<Rightarrow> - int k
           | None \<Rightarrow> - 400)"

definition repr_candidate :: "rat \<Rightarrow> int \<Rightarrow> nat \<Rightarrow> (int \<times> int) option" where
  "repr_candidate a l n =
     (let e = l - int n + 1;
          g = pow10 e;
          lo = \<lfloor>a / g\<rfloor>;
          ok_lo = (round_to_double (of_int lo * g) = Finite a);
          ok_hi = (round_to_double (of_int (lo + 1) * g) = Finite a);
          d_lo = a - of_int lo * g;
          d_hi = of_int (lo + 1) * g - a
      in if ok_lo \<and> ok_hi then
           Some (if d_lo < d_hi \<or> (d_lo = d_hi \<and> even lo) then lo else lo + 1, e)
         else if ok_lo then Some (lo, e)
         else if ok_hi then Some (lo + 1, e)
         else None)"

fun shortest_digits :: "rat \<Rightarrow> int \<Rightarrow> nat list \<Rightarrow> int \<times> int" where
  "shortest_digits a l [] = (round_half_even (a / pow10 (l - 16)), l - 16)"
| "shortest_digits a l (n # ns) =
     (case repr_candidate a l n of
        Some r \<Rightarrow> r
      | None \<Rightarrow> shortest_digits a l ns)"

definition strip_zeros :: "string \<Rightarrow> string" where
  "strip_zeros s = rev (dropWhile (\<lambda>c. c = CHR ''0'') (rev s))"

definition exp_str :: "int \<Rightarrow> string" where
  "exp_str e =
     (if e < 0 then ''-'' else ''+'') @
     (if \<bar>e\<bar> < 10 then ''0'' else '''') @ digits_of \<bar>e\<bar>"

definition repr_finite :: "rat \<Rightarrow> string" where
  "repr_finite a =
     (let (d, e) = shortest_digits a (floor_log10 a) [1..<18];
          full = digits_of d;
          decpt = int (length full) + e;
          ds = strip_zeros full;
          nd = int (length ds)
      in if decpt \<le> - 4 \<or> 16 < decpt then
           take 1 ds @ (if 1 < nd then ''.'' @ drop 1 ds else '''') @ ''e'' @ exp_str (decpt - 1)
         else if decpt \<le> 0 then ''0.'' @ replicate (nat (- decpt)) CHR ''0'' @ ds
         else if nd \<le> decpt then ds @ replicate (nat (decpt - nd)) CHR ''0'' @ ''.0''
         else take (nat decpt) ds @ ''.'' @ drop (nat decpt) ds)"

fun float_repr :: "pyfloat \<Rightarrow> string" where
  "float_repr NaN = ''nan''"
| "float_repr PosInf = ''inf''"
| "float_repr NegInf = ''-inf''"
| "float_repr NegZero = ''-0.0''"
| "float_repr (Finite q) =
     (if q = 0 then ''0.0''
      else if q < 0 then ''-'' @ repr_finite (- q)
      else repr_finite q)"

subsection \<open>The format \<open>,.2f\<close>\<close>

fun insert_commas :: "string \<Rightarrow> string" where
  "insert_commas (a # b # c # d # rest) = a # b # c # CHR '','' # insert_commas (d # rest)"
| "insert_commas s = s"

text \<open>A comma before every group of three digits, counted from the right.\<close>

definition group_thousands :: "string \<Rightarrow> string" where
  "group_thousands ds = rev (insert_commas (rev ds))"

text \<open>
  A value \<open>a \<ge> 0\<close> with two digits after the point: the exact value is rounded to
  hundredths, ties to even.
\<close>

definition fixed2 :: "rat \<Rightarrow> string" where
  "fixed2 a =
     (let n = round_half_even (a * 100)
      in group_thousands (digits_of (n div 100)) @ ''.'' @
         [digit_char (nat (n mod 100 div 10)), digit_char (nat (n mod 10))])"

fun format_float :: "pyfloat \<Rightarrow> string" where
  "format_float NaN = ''nan''"
| "format_float PosInf = ''inf''"
| "format_float NegInf = ''-inf''"
| "format_float NegZero = ''-0.00''"
| "format_float (Finite q) = (if q < 0 then ''-'' @ fixed2 (- q) else fixed2 q)"

section \<open>The conversions \<open>int\<close>, \<open>float\<close> and \<open>str\<close>\<close>

text \<open>
  A run of digits in which single underscores may stand between two digits; the result is
  the digits alone.
\<close>

fun digitpart :: "string \<Rightarrow> string option" where
  "digitpart [] = None"
| "digitpart [c] = (if is_digit c then Some [c] else None)"
| "digitpart (c # d # rest) =
     (if \<not> is_digit c then None
      else if d = CHR ''_'' then map_option (Cons c) (digitpart rest)
      else map_option (Cons c) (digitpart (d # rest)))"

definition digits_val :: "string \<Rightarrow> int" where
  "digits_val ds = foldl (\<lambda>a c. 10 * a + digit_val c) 0 ds"

text \<open>An optional sign: whether it is a minus, and the rest of the string.\<close>

fun split_sign :: "string \<Rightarrow> bool \<times> string" where
  "split_sign [] = (False, [])"
| "split_sign (c # s) =
     (if c = CHR ''-'' then (True, s)
      else if c = CHR ''+'' then (False, s)
      else (False, c # s))"

text \<open>
  \<open>int(s)\<close> of a string, in base ten. The limit that an interpreter may put on the
  number of digits is not modelled.
\<close>

definition int_of_string :: "string \<Rightarrow> exn + int" where
  "int_of_string s =
     (let (neg, u) = split_sign (strip s)
      in case digitpart u of
           None \<Rightarrow> Inl ValueError
         | Some ds \<Rightarrow> Inr (if neg then - digits_val ds else digits_val ds))"

text \<open>The text before the first character that satisfies \<open>P\<close>, and the text after it.\<close>

definition split_at :: "(char \<Rightarrow> bool) \<Rightarrow> string \<Rightarrow> string \<times> string option" where
  "split_at P s =
     (case dropWhile (\<lambda>c. \<not> P c) s of
        [] \<Rightarrow> (s, None)
      | _ # r \<Rightarrow> (takeWhile (\<lambda>c. \<not> P c) s, Some r))"

text \<open>
  The mantissa \<open>[digits] . digits\<close> or \<open>digits [.]\<close>: its value as an integer
  and the number of digits after the point.
\<close>

definition mantissa :: "string \<Rightarrow> (int \<times> nat) option" where
  "mantissa m =
     (case split_at (\<lambda>c. c = CHR ''.'') m of
        (ip, None) \<Rightarrow> map_option (\<lambda>ds. (digits_val ds, 0)) (digitpart ip)
      | (ip, Some fp) \<Rightarrow>
          (if ip = [] then map_option (\<lambda>fs. (digits_val fs, length fs)) (digitpart fp)
           else case digitpart ip of
                  None \<Rightarrow> None
                | Some ds \<Rightarrow>
                    (if fp = [] then Some (digits_val ds, 0)
                     else map_option (\<lambda>fs. (digits_val (ds @ fs), length fs)) (digitpart fp))))"

definition exponent :: "string option \<Rightarrow> int option" where
  "exponent x =
     (case x of
        None \<Rightarrow> Some 0
      | Some t \<Rightarrow>
          (let (neg, u) = split_sign t
           in map_option (\<lambda>ds. if neg then - digits_val ds else digits_val ds) (digitpart u)))"

text \<open>\<open>float(s)\<close> of a string: the nearest double to the decimal number written.\<close>

definition float_of_string :: "string \<Rightarrow> exn + pyfloat" where
  "float_of_string s =
     (let (neg, u) = split_sign (strip s)
      in if lower u = ''inf'' \<or> lower u = ''infinity'' then Inr (if neg then NegInf else PosInf)
         else if lower u = ''nan'' then Inr NaN
         else
           let (m, x) = split_at (\<lambda>c. c = CHR ''e'' \<or> c = CHR ''E'') u
           in case (mantissa m, exponent x) of
                (Some (v, fl), Some e) \<Rightarrow>
                  (if v = 0 then Inr (if neg then NegZero else Finite 0)
                   else Inr (round_to_double
                          ((if neg then - 1 else 1) * of_int v * pow10 (e - int fl))))
              | _ \<Rightarrow> Inl ValueError)"

text \<open>\<open>int(v)\<close>: a float is truncated towards zero.\<close>

fun py_int :: "cell \<Rightarrow> exn + int" where
  "py_int (CInt n) = Inr n"
| "py_int (CStr s) = int_of_string s"
| "py_int (CFloat (Finite q)) = Inr (if 0 \<le> q then \<lfloor>q\<rfloor> else - \<lfloor>- q\<rfloor>)"
| "py_int (CFloat NegZero) = Inr 0"
| "py_int (CFloat NaN) = Inl ValueError"
| "py_int (CFloat PosInf) = Inl OverflowError"
| "py_int (CFloat NegInf) = Inl OverflowError"

text \<open>\<open>float(v)\<close>: an \<open>int\<close> beyond the range of the doubles is an error.\<close>

fun py_float :: "cell \<Rightarrow> exn + pyfloat" where
  "py_float (CFloat f) = Inr f"
| "py_float (CStr s) = float_of_string s"
| "py_float (CInt n) =
     (case round_to_double (of_int n) of
        PosInf \<Rightarrow> Inl OverflowError
      | NegInf \<Rightarrow> Inl OverflowError
      | f \<Rightarrow> Inr f)"

text \<open>\<open>str(v)\<close>, which is also how an f-string shows \<open>{v}\<close>.\<close>

fun py_str :: "cell \<Rightarrow> string" where
  "py_str (CStr s) = s"
| "py_str (CInt n) = int_str n"
| "py_str (CFloat f) = float_repr f"

section \<open>The report builder\<close>

subsection \<open>Summary statistics\<close>

text \<open>
  The revenue total starts as the \<open>int\<close> zero that \<open>sum\<close> begins with (and that
  the \<open>except\<close> branch assigns); adding a float to it gives a float. The floats are
  added from left to right, each addition rounded to the nearest double. (An interpreter
  that carries a correction term through the sum can differ from this in the last bits
  of an inexact sum.)
\<close>

datatype total = IntZero | FloatSum pyfloat

fun total_add :: "total \<Rightarrow> pyfloat \<Rightarrow> total" where
  "total_add IntZero f = FloatSum (fadd (Finite 0) f)"
| "total_add (FloatSum a) f = FloatSum (fadd a f)"

text \<open>\<open>sum(int(row.get("Sales", 0)) for row in data)\<close>\<close>

fun sum_sales :: "row list \<Rightarrow> int \<Rightarrow> exn + int" where
  "sum_sales [] acc = Inr acc"
| "sum_sales (row # rest) acc =
     (case py_int (dict_get row ''Sales'' (CInt 0)) of
        Inl e \<Rightarrow> Inl e
      | Inr n \<Rightarrow> sum_sales rest (acc + n))"

text \<open>\<open>sum(float(row.get("Revenue", 0)) for row in data)\<close>\<close>

fun sum_revenue :: "row list \<Rightarrow> total \<Rightarrow> exn + total" where
  "sum_revenue [] acc = Inr acc"
| "sum_revenue (row # rest) acc =
     (case py_float (dict_get row ''Revenue'' (CInt 0)) of
        Inl e \<Rightarrow> Inl e
      | Inr f \<Rightarrow> sum_revenue rest (total_add acc f))"

text \<open>\<open>sum(1 for row in data if str(row.get("Status", "")).lower() == "completed")\<close>\<close>

definition is_completed :: "row \<Rightarrow> bool" where
  "is_completed row = (lower (py_str (dict_get row ''Status'' (CStr ''''))) = ''completed'')"

fun count_completed :: "row list \<Rightarrow> int \<Rightarrow> int" where
  "count_completed [] acc = acc"
| "count_completed (row # rest) acc =
     count_completed rest (if is_completed row then acc + 1 else acc)"

text \<open>The body of the \<open>try\<close>: the first exception ends it.\<close>

definition summary_try :: "row list \<Rightarrow> exn + (int \<times> total \<times> int)" where
  "summary_try data =
     (case sum_sales data 0 of
        Inl e \<Rightarrow> Inl e
      | Inr total_sales \<Rightarrow>
          (case sum_revenue data IntZero of
             Inl e \<Rightarrow> Inl e
           | Inr total_revenue \<Rightarrow> Inr (total_sales, total_revenue, count_completed data 0)))"

text \<open>The \<open>try\<close> with its \<open>except Exception\<close>: total sales, total revenue, completed.\<close>

definition summary :: "row list \<Rightarrow> int \<times> total \<times> int" where
  "summary data =
     (case summary_try data of
        Inl e \<Rightarrow> (0, IntZero, 0)
      | Inr r \<Rightarrow> r)"

fun format_total :: "total \<Rightarrow> string" where
  "format_total IntZero = format_float (Finite 0)"
| "format_total (FloatSum f) = format_float f"

subsection \<open>Table rows and headers\<close>

definition cells :: "row \<Rightarrow> string" where
  \<open>cells row =
     concat (map (\<lambda>v. ''<td style='padding:10px 14px; border-bottom:1px solid #eee;'>'' @
                        py_str v @ ''</td>'') (dict_values row))\<close>

definition bg :: "nat \<Rightarrow> string" where
  "bg i = (if i mod 2 = 0 then ''#f9f7f4'' else ''#ffffff'')"

text \<open>The loop over \<open>enumerate(data)\<close>, which appends one \<open><tr>\<close> to the string.\<close>

fun table_rows_loop :: "nat \<Rightarrow> row list \<Rightarrow> string \<Rightarrow> string" where
  "table_rows_loop i [] table_rows = table_rows"
| "table_rows_loop i (row # rest) table_rows =
     table_rows_loop (Suc i) rest
       (table_rows @ ''<tr style='background:'' @ bg i @ '';'>'' @ cells row @ ''</tr>'')"

definition table_rows :: "row list \<Rightarrow> string" where
  "table_rows data = table_rows_loop 0 data ''''"

definition headers :: "row list \<Rightarrow> string" where
  \<open>headers data =
     (case data of
        [] \<Rightarrow> ''<th>No data found</th>''
      | first # _ \<Rightarrow>
          concat (map (\<lambda>col. ''<th style='padding:12px 14px; text-align:left; background:#1a1a2e; color:#fff; font-weight:600;'>'' @
                              col @ ''</th>'') (dict_keys first)))\<close>

subsection \<open>The document\<close>

text \<open>
  The f-string of the whole e-mail. It shows the two counts as \<open>str\<close> does and the
  revenue with the format \<open>,.2f\<close> after a dollar sign.
\<close>

definition html ::
  "string \<Rightarrow> string \<Rightarrow> int \<Rightarrow> total \<Rightarrow> int \<Rightarrow> string \<Rightarrow> string \<Rightarrow> string" where
  \<open>html business_name today total_sales total_revenue completed header_cells body_rows =
     ''\<newline>'' @
     ''    <!DOCTYPE html>\<newline>'' @
     ''    <html>\<newline>'' @
     ''    <head><meta charset="UTF-8"/></head>\<newline>'' @
     ''    <body style="margin:0; padding:0; background:#f0ede8; font-family: 'Helvetica Neue', Arial, sans-serif;">\<newline>'' @
     ''\<newline>'' @
     ''      <div style="max-width:640px; margin:32px auto; background:#fff; border-radius:8px; overflow:hidden; box-shadow:0 2px 12px rgba(0,0,0,0.08);">\<newline>'' @
     ''\<newline>'' @
     ''        <!-- HEADER -->\<newline>'' @
     ''        <div style="background:#1a1a2e; padding:32px 36px;">\<newline>'' @
     ''          <div style="font-size:12px; letter-spacing:0.2em; color:#7a8aaa; text-transform:uppercase; margin-bottom:8px;">Automated Weekly Report</div>\<newline>'' @
     ''          <div style="font-size:26px; font-weight:700; color:#ffffff;">'' @
     business_name @
     ''</div>\<newline>'' @
     ''          <div style="font-size:13px; color:#9aa3b8; margin-top:6px;">Generated on '' @
     today @
     ''</div>\<newline>'' @
     ''        </div>\<newline>'' @
     ''\<newline>'' @
     ''        <!-- SUMMARY STATS -->\<newline>'' @
     ''        <div style="padding:28px 36px; background:#f9f7f4; border-bottom:1px solid #eee;">\<newline>'' @
     ''          <div style="font-size:11px; letter-spacing:0.15em; color:#999; text-transform:uppercase; margin-bottom:16px;">Summary</div>\<newline>'' @
     ''          <div style="display:flex; gap:20px; flex-wrap:wrap;">\<newline>'' @
     ''\<newline>'' @
     ''            <div style="flex:1; min-width:140px; background:#fff; border-radius:6px; padding:18px 20px; border:1px solid #eee;">\<newline>'' @
     ''              <div style="font-size:28px; font-weight:700; color:#1a1a2e;">'' @
     int_str total_sales @
     ''</div>\<newline>'' @
     ''              <div style="font-size:12px; color:#999; margin-top:4px;">Total Sales</div>\<newline>'' @
     ''            </div>\<newline>'' @
     ''\<newline>'' @
     ''            <div style="flex:1; min-width:140px; background:#fff; border-radius:6px; padding:18px 20px; border:1px solid #eee;">\<newline>'' @
     ''              <div style="font-size:28px; font-weight:700; color:#2d6a4f;">$'' @
     format_total total_revenue @
     ''</div>\<newline>'' @
     ''              <div style="font-size:12px; color:#999; margin-top:4px;">Total Revenue</div>\<newline>'' @
     ''            </div>\<newline>'' @
     ''\<newline>'' @
     ''            <div style="flex:1; min-width:140px; background:#fff; border-radius:6px; padding:18px 20px; border:1px solid #eee;">\<newline>'' @
     ''              <div style="font-size:28px; font-weight:700; color:#c8531a;">'' @
     int_str completed @
     ''</div>\<newline>'' @
     ''              <div style="font-size:12px; color:#999; margin-top:4px;">Completed Orders</div>\<newline>'' @
     ''            </div>\<newline>'' @
     ''\<newline>'' @
     ''          </div>\<newline>'' @
     ''        </div>\<newline>'' @
     ''\<newline>'' @
     ''        <!-- DATA TABLE -->\<newline>'' @
     ''        <div style="padding:28px 36px;">\<newline>'' @
     ''          <div style="font-size:11px; letter-spacing:0.15em; color:#999; text-transform:uppercase; margin-bottom:16px;">Full Data Breakdown</div>\<newline>'' @
     ''          <div style="overflow-x:auto;">\<newline>'' @
     ''            <table style="width:100%; border-collapse:collapse; font-size:13px;">\<newline>'' @
     ''              <thead><tr>'' @
     header_cells @
     ''</tr></thead>\<newline>'' @
     ''              <tbody>'' @
     body_rows @
     ''</tbody>\<newline>'' @
     ''            </table>\<newline>'' @
     ''          </div>\<newline>'' @
     ''        </div>\<newline>'' @
     ''\<newline>'' @
     ''        <!-- FOOTER -->\<newline>'' @
     ''        <div style="padding:20px 36px; background:#f9f7f4; border-top:1px solid #eee; text-align:center;">\<newline>'' @
     ''          <div style="font-size:12px; color:#bbb;">This report was generated automatically '' @
     [CHR 0xC2, CHR 0xB7] @
     '' Built by Lincoln Adura</div>\<newline>'' @
     ''          <div style="font-size:11px; color:#ccc; margin-top:4px;">Automation Developer '' @
     [CHR 0xC2, CHR 0xB7] @
     '' Web Developer</div>\<newline>'' @
     ''        </div>\<newline>'' @
     ''\<newline>'' @
     ''      </div>\<newline>'' @
     ''    </body>\<newline>'' @
     ''    </html>\<newline>'' @
     ''    ''\<close>

text \<open>
  The business name comes from the environment, with a default; the date is the clock's,
  written as month, day and year.
\<close>

definition BUSINESS_NAME :: "string option \<Rightarrow> string" where
  "BUSINESS_NAME env = (case env of None \<Rightarrow> ''Your Business'' | Some name \<Rightarrow> name)"

definition build_report :: "string option \<Rightarrow> string \<Rightarrow> row list \<Rightarrow> string" where
  "build_report env today data =
     (let (total_sales, total_revenue, completed) = summary data
      in html (BUSINESS_NAME env) today total_sales total_revenue completed
           (headers data) (table_rows data))"

section \<open>The program\<close>

text \<open>
  What a run does, in order. The three steps are parameters: reading the sheet and sending
  the mail depend on the network, and each step either returns or raises.
\<close>

datatype event =
    Call_get_sheet_data
  | Call_build_report "row list"
  | Call_send_email string
  | Email_sent string
  | Print_done
  | Print_error exn

definition main ::
  "(exn + row list) \<Rightarrow> (row list \<Rightarrow> exn + string) \<Rightarrow> (string \<Rightarrow> exn + unit) \<Rightarrow> event list" where
  "main get_sheet_data build send_email =
     Call_get_sheet_data #
     (case get_sheet_data of
        Inl e \<Rightarrow> [Print_error e]
      | Inr data \<Rightarrow>
          Call_build_report data #
          (case build data of
             Inl e \<Rightarrow> [Print_error e]
           | Inr html_report \<Rightarrow>
               Call_send_email html_report #
               (case send_email html_report of
                  Inl e \<Rightarrow> [Print_error e]
                | Inr _ \<Rightarrow> [Email_sent html_report, Print_done])))"

text \<open>The run of the program itself: the builder is \<open>build_report\<close>, which always returns.\<close>

definition run ::
  "string option \<Rightarrow> string \<Rightarrow> (exn + row list) \<Rightarrow> (string \<Rightarrow> exn + unit) \<Rightarrow> event list" where
  "run env today get_sheet_data send_email =
     main get_sheet_data (\<lambda>data. Inr (build_report env today data)) send_email"

section \<open>Notions of the specification\<close>










text \<open>The two rows that the specification gives as its example.\<close>

definition example_rows :: "row list" where
  "example_rows =
     [[(''Item'', CStr ''A''), (''Sales'', CStr ''3''), (''Revenue'', CStr ''10.5''),
       (''Status'', CStr ''Completed'')],
      [(''Item'', CStr ''B''), (''Sales'', CStr ''2''), (''Revenue'', CStr ''5.0''),
       (''Status'', CStr ''pending'')]]"










section \<open>The table\<close>













section \<open>The summary\<close>








subsection \<open>Evaluation of concrete inputs\<close>






subsection \<open>The claims about the summary\<close>









section \<open>The figures of the summary\<close>





























section \<open>The run of the program\<close>

text \<open>
  C4. In every run, whatever the three steps do: the sender is called exactly when the
  fetch returned rows and the builder returned a document for them, and then the call
  comes third, after the calls of the fetcher and of the builder; when the fetch or the
  build raises, the run ends with the error message and no call of the sender; and when
  a mail has been sent, the run is the whole cycle fetch, build, send.
\<close>

theorem main_send_after_fetch_and_build:
  "(Call_send_email h \<in> set (main get_sheet_data build send_email)) =
     (\<exists>data. get_sheet_data = Inr data \<and> build data = Inr h) \<and>
   (Call_send_email h \<in> set (main get_sheet_data build send_email) \<longrightarrow>
     (\<exists>data tail. main get_sheet_data build send_email =
        [Call_get_sheet_data, Call_build_report data, Call_send_email h] @ tail)) \<and>
   (get_sheet_data = Inl e \<longrightarrow>
     main get_sheet_data build send_email = [Call_get_sheet_data, Print_error e]) \<and>
   (get_sheet_data = Inr rows \<and> build rows = Inl e \<longrightarrow>
     main get_sheet_data build send_email =
       [Call_get_sheet_data, Call_build_report rows, Print_error e]) \<and>
   (Email_sent h \<in> set (main get_sheet_data build send_email) \<longrightarrow>
     (\<exists>data. get_sheet_data = Inr data \<and> build data = Inr h \<and>
        main get_sheet_data build send_email =
          [Call_get_sheet_data, Call_build_report data, Call_send_email h, Email_sent h,
           Print_done]))"
  by (auto simp: main_def split: sum.splits)

theorem main_send_after_fetch_and_build_witness:
  "main (Inl (External ''no network'')) (\<lambda>data. Inr (build_report None ''January 01, 2025'' data))
      (\<lambda>html. Inr ()) =
     [Call_get_sheet_data, Print_error (External ''no network'')] \<and>
   main (Inr example_rows) (\<lambda>data. Inl ValueError) (\<lambda>html. Inr ()) =
     [Call_get_sheet_data, Call_build_report example_rows, Print_error ValueError] \<and>
   Call_send_email (build_report None ''January 01, 2025'' example_rows) \<in>
     set (run None ''January 01, 2025'' (Inr example_rows) (\<lambda>html. Inl (External ''smtp''))) \<and>
   Email_sent (build_report None ''January 01, 2025'' example_rows) \<in>
     set (run None ''January 01, 2025'' (Inr example_rows) (\<lambda>html. Inr ())) \<and>
   run None ''January 01, 2025'' (Inr example_rows) (\<lambda>html. Inr ()) =
     [Call_get_sheet_data, Call_build_report example_rows,
      Call_send_email (build_report None ''January 01, 2025'' example_rows),
      Email_sent (build_report None ''January 01, 2025'' example_rows), Print_done]"
proof -
  let ?b = "\<lambda>data. Inr (build_report None ''January 01, 2025'' data) :: exn + string"
  let ?h = "build_report None ''January 01, 2025'' example_rows"
  have 1: "main (Inl (External ''no network'')) ?b (\<lambda>html. Inr ()) =
     [Call_get_sheet_data, Print_error (External ''no network'')]"
    using main_send_after_fetch_and_build
      [of ?h "Inl (External ''no network'')" ?b "\<lambda>html. Inr ()" "External ''no network''"]
    by simp
  have 2: "main (Inr example_rows) (\<lambda>data. Inl ValueError) (\<lambda>html. Inr ()) =
     [Call_get_sheet_data, Call_build_report example_rows, Print_error ValueError]"
    using main_send_after_fetch_and_build
      [of ?h "Inr example_rows" "\<lambda>data. Inl ValueError" "\<lambda>html. Inr ()" ValueError example_rows]
    by simp
  have 3: "Call_send_email ?h \<in>
     set (main (Inr example_rows) ?b (\<lambda>html. Inl (External ''smtp'')))"
    using main_send_after_fetch_and_build
      [of ?h "Inr example_rows" ?b "\<lambda>html. Inl (External ''smtp'')"]
    by simp
  have sent: "Email_sent ?h \<in> set (main (Inr example_rows) ?b (\<lambda>html. Inr ()))"
    by (simp add: main_def)
  have 4: "main (Inr example_rows) ?b (\<lambda>html. Inr ()) =
     [Call_get_sheet_data, Call_build_report example_rows, Call_send_email ?h,
      Email_sent ?h, Print_done]"
    using sent main_send_after_fetch_and_build
      [of ?h "Inr example_rows" ?b "\<lambda>html. Inr ()"]
    by simp
  show ?thesis
    unfolding run_def using 1 2 3 sent 4 by simp
qed

end
